theory Spec2Isabelle
  imports Main "HOL-Library.AList"
begin

section \<open>Values of the JavaScript program\<close>

text \<open>
  The backend keeps its state in two document collections (\<open>orders\<close>, \<open>users\<close>) and
  talks to a payment processor. Amounts are whole minor currency units (pence), modelled
  as \<open>int\<close>. A field of a document or of a request body that may be missing is an
  \<open>option\<close> (\<open>None\<close> is JavaScript's \<open>undefined\<close>); a field that may hold \<open>null\<close> is a
  \<open>nullable\<close>. Console output is not part of the state and is left out.
\<close>

type_synonym docid = string

text \<open>The k-th reading of the clock taken while one request is handled.\<close>

type_synonym clock = "nat \<Rightarrow> nat"

text \<open>
  The result of \<open>Number(x)\<close>: a number or \<open>NaN\<close>. The two infinities are counted with
  \<open>NaN\<close>: the only code that reads such a value, the wallet deduction, writes nothing on
  any of the three.
\<close>

datatype jsnum = Num int | NaN

datatype 'a nullable = Null | Val 'a

text \<open>
  \<open>admin.firestore.FieldValue.serverTimestamp()\<close> and \<open>new Date().toISOString()\<close> are two
  different kinds of time value.
\<close>

datatype stamp = ServerTimestamp nat | IsoString nat

text \<open>Truthiness of a string that may be undefined: \<open>!x\<close> is \<open>\<not> truthy x\<close>.\<close>

definition truthy :: "string option \<Rightarrow> bool" where
  "truthy x = (case x of None \<Rightarrow> False | Some s \<Rightarrow> s \<noteq> [])"

text \<open>\<open>x || null\<close> on a string that may be missing.\<close>

definition orNull :: "string option \<Rightarrow> string nullable" where
  "orNull x = (case x of None \<Rightarrow> Null | Some s \<Rightarrow> if s = [] then Null else Val s)"

text \<open>\<open>x || 0\<close> on a number that may be missing.\<close>

definition orZero :: "int option \<Rightarrow> int" where
  "orZero x = (case x of None \<Rightarrow> 0 | Some n \<Rightarrow> if n = 0 then 0 else n)"

section \<open>Documents\<close>

record order =
  paymentStatus :: "string option"
  orderStatus :: "string option"
  verified :: "bool option"
  currency :: "string option"
  stripePaymentIntentId :: "string option"
  stripeChargeId :: "string nullable option"
  paidAt :: "stamp option"
  paymentError :: "string option"
  order_updatedAt :: "stamp option"

record card =
  card_id :: string
  brand :: string
  last4 :: string
  expMonth :: nat
  expYear :: nat
  createdAt :: stamp

record wallet_tx =
  tx_type :: string
  tx_amount :: int
  previousBalance :: int
  newBalance :: int
  timestamp :: stamp
  tx_status :: string
  description :: string
  tx_stripePaymentIntentId :: string
  tx_stripeChargeId :: "string nullable"
  tx_paymentMethod :: string
  tx_saveCard :: bool

record user =
  email :: "string option"
  stripeCustomerId :: "string option"
  walletBalance :: "int option"
  savedCards :: "card list option"
  defaultPaymentMethod :: "string nullable option"
  walletTransactions :: "wallet_tx list option"
  orderHistory :: "docid list option"
  user_updatedAt :: "stamp option"

text \<open>
  \<open>FieldValue.arrayUnion(x)\<close>: the element is added at the end unless the array already
  holds it; a missing field becomes a one-element array.
\<close>

definition arrayUnion :: "'a list option \<Rightarrow> 'a \<Rightarrow> 'a list option" where
  "arrayUnion cur x =
     (case cur of
        None \<Rightarrow> Some [x]
      | Some xs \<Rightarrow> Some (if x \<in> set xs then xs else xs @ [x]))"

section \<open>Writes to the store\<close>

text \<open>
  Each write the handlers issue, with the values it carries. \<open>apply_order_update\<close> and
  \<open>apply_user_update\<close> give the field-level merge that \<open>update\<close> (and \<open>set\<close> with
  \<open>merge: true\<close>) performs: fields not named keep their value. The store is created with
  \<open>ignoreUndefinedProperties: true\<close>, so an undefined value leaves its field as it is.
\<close>

datatype order_update =
    Finalize string "string nullable" nat
  | MarkFailed string nat

fun apply_order_update :: "order_update \<Rightarrow> order \<Rightarrow> order" where
  "apply_order_update (Finalize pid charge t) d =
     d\<lparr>paymentStatus := Some ''paid'',
       orderStatus := Some ''confirmed'',
       verified := Some True,
       currency := Some ''GBP'',
       stripePaymentIntentId := Some pid,
       stripeChargeId := Some charge,
       paidAt := Some (ServerTimestamp t),
       order_updatedAt := Some (ServerTimestamp t)\<rparr>"
| "apply_order_update (MarkFailed msg t) d =
     d\<lparr>paymentStatus := Some ''failed'',
       paymentError := Some msg,
       order_updatedAt := Some (ServerTimestamp t)\<rparr>"

datatype user_update =
    SetCustomerId string
  | DeductWallet int nat
  | UnionOrderHistory docid nat
  | UnionSavedCards card stamp
  | CreditWallet int nat wallet_tx
  | ReplaceCards "card list" "string nullable option" nat

fun apply_user_update :: "user_update \<Rightarrow> user \<Rightarrow> user" where
  "apply_user_update (SetCustomerId cid) u = u\<lparr>stripeCustomerId := Some cid\<rparr>"
| "apply_user_update (DeductWallet b t) u =
     u\<lparr>walletBalance := Some b, user_updatedAt := Some (ServerTimestamp t)\<rparr>"
| "apply_user_update (UnionOrderHistory oid t) u =
     u\<lparr>orderHistory := arrayUnion (orderHistory u) oid,
       user_updatedAt := Some (ServerTimestamp t)\<rparr>"
| "apply_user_update (UnionSavedCards c t) u =
     u\<lparr>savedCards := arrayUnion (savedCards u) c, user_updatedAt := Some t\<rparr>"
| "apply_user_update (CreditWallet b t tx) u =
     u\<lparr>walletBalance := Some b,
       user_updatedAt := Some (IsoString t),
       walletTransactions := arrayUnion (walletTransactions u) tx\<rparr>"
| "apply_user_update (ReplaceCards cs dflt t) u =
     u\<lparr>savedCards := Some cs,
       defaultPaymentMethod := (case dflt of None \<Rightarrow> defaultPaymentMethod u | Some v \<Rightarrow> Some v),
       user_updatedAt := Some (IsoString t)\<rparr>"

section \<open>The payment processor\<close>

datatype metaval = Str string | NumString int | BoolString bool

record pi_params =
  pp_amount :: int
  pp_currency :: string
  pp_customer :: string
  pp_metadata :: "(string \<times> metaval) list"
  pp_apm_enabled :: bool
  pp_apm_allow_redirects :: string
  pp_payment_method :: "string option"
  pp_confirm :: "bool option"
  pp_off_session :: "bool option"

text \<open>
  The metadata bag of a payment intent delivered by a webhook. \<open>md_walletAmount\<close> holds
  what \<open>Number\<close> yields on the entry; \<open>None\<close> is a missing key, for which the
  destructuring default \<open>0\<close> applies.
\<close>

record metadata =
  md_orderId :: "string option"
  md_userId :: "string option"
  md_walletAmount :: "jsnum option"

record payment_intent =
  pi_id :: string
  pi_status :: string
  client_secret :: "string option"
  latest_charge :: "string option"
  pi_payment_method :: "string option"
  pi_amount :: int
  pi_metadata :: "metadata option"
  last_payment_error_message :: "string option"

record setup_intent =
  si_customer :: "string option"
  si_payment_method :: "string option"

record card_details =
  cd_brand :: string
  cd_last4 :: string
  cd_exp_month :: nat
  cd_exp_year :: nat

record payment_method =
  pm_id :: string
  pm_card :: "card_details option"

record stripe_error =
  err_message :: string
  err_type :: "string option"
  err_code :: "string option"

datatype event =
    PaymentIntentSucceeded payment_intent
  | PaymentIntentFailed payment_intent
  | SetupIntentSucceeded setup_intent
  | OtherEvent string

text \<open>
  The processor's client library is not part of the repository: its answers are taken as
  parameters. \<open>Inl\<close> is a thrown error.
\<close>

record stripe =
  customers_create :: "string \<Rightarrow> docid \<Rightarrow> stripe_error + string"
  paymentMethods_attach :: "string \<Rightarrow> string \<Rightarrow> stripe_error + unit"
  paymentMethods_detach :: "string \<Rightarrow> stripe_error + unit"
  paymentMethods_retrieve :: "string \<Rightarrow> stripe_error + payment_method"
  paymentIntents_create :: "pi_params \<Rightarrow> stripe_error + payment_intent"
  constructEvent :: "string \<Rightarrow> string option \<Rightarrow> string option \<Rightarrow> string + event"
  webhook_secret :: "string option"

section \<open>The world: store and requests issued\<close>

text \<open>
  \<open>trace\<close> lists, in order, every request sent to the processor and every write sent to
  the store, whatever its outcome. \<open>pathKey\<close> is the store's client library resolving a
  path given to \<open>collection.doc(...)\<close>: the key of the document the path names, or \<open>None\<close>
  when the library rejects the path (\<open>doc\<close> throws for a path such as \<open>a/b\<close>, which does
  not end at a document). The library is not part of the repository, so its answer is a
  parameter of the world.
\<close>

datatype effect =
    StripeCustomersCreate string docid
  | StripeAttach string string
  | StripeDetach string
  | StripeRetrieve string
  | StripePaymentIntentsCreate pi_params
  | OrderUpdate docid order_update
  | UserUpdate docid user_update
  | UserSetMerge docid user_update

record world =
  orders :: "(docid \<times> order) list"
  users :: "(docid \<times> user) list"
  trace :: "effect list"
  pathKey :: "string \<Rightarrow> docid option"

datatype db_error = NotFound docid | InvalidPath string

text \<open>
  \<open>db.collection(...).doc(p)\<close>: the reference to a document, or the error thrown. A key
  under which the collection holds a document names that document; every other path is
  resolved by the library.
\<close>

definition doc :: "world \<Rightarrow> (docid \<times> 'a) list \<Rightarrow> string \<Rightarrow> db_error + docid" where
  "doc w coll p =
     (if p \<in> fst ` set coll then Inr p
      else (case pathKey w p of None \<Rightarrow> Inl (InvalidPath p) | Some k \<Rightarrow> Inr k))"

definition emit :: "effect \<Rightarrow> world \<Rightarrow> world" where
  "emit e w = w\<lparr>trace := trace w @ [e]\<rparr>"

text \<open>\<open>docRef.update(...)\<close> fails when the document does not exist.\<close>

definition update_order :: "docid \<Rightarrow> order_update \<Rightarrow> world \<Rightarrow> db_error option \<times> world" where
  "update_order oid upd w =
     (case map_of (orders w) oid of
        None \<Rightarrow> (Some (NotFound oid), emit (OrderUpdate oid upd) w)
      | Some d \<Rightarrow>
          (None, emit (OrderUpdate oid upd)
                   (w\<lparr>orders := AList.update oid (apply_order_update upd d) (orders w)\<rparr>)))"

definition update_user :: "docid \<Rightarrow> user_update \<Rightarrow> world \<Rightarrow> db_error option \<times> world" where
  "update_user uid upd w =
     (case map_of (users w) uid of
        None \<Rightarrow> (Some (NotFound uid), emit (UserUpdate uid upd) w)
      | Some u \<Rightarrow>
          (None, emit (UserUpdate uid upd)
                   (w\<lparr>users := AList.update uid (apply_user_update upd u) (users w)\<rparr>)))"

definition empty_user :: user where
  "empty_user =
     \<lparr>email = None, stripeCustomerId = None, walletBalance = None, savedCards = None,
      defaultPaymentMethod = None, walletTransactions = None, orderHistory = None,
      user_updatedAt = None\<rparr>"

text \<open>\<open>docRef.set(..., {merge: true})\<close> creates the document when it does not exist.\<close>

definition set_user_merge :: "docid \<Rightarrow> user_update \<Rightarrow> world \<Rightarrow> world" where
  "set_user_merge uid upd w =
     (let u = (case map_of (users w) uid of None \<Rightarrow> empty_user | Some u \<Rightarrow> u)
      in emit (UserSetMerge uid upd)
           (w\<lparr>users := AList.update uid (apply_user_update upd u) (users w)\<rparr>))"

text \<open>Sequencing of awaited writes: a rejected write ends the handler.\<close>

definition andThen ::
  "db_error option \<times> world \<Rightarrow> (world \<Rightarrow> db_error option \<times> world) \<Rightarrow> db_error option \<times> world"
where
  "andThen r f = (case r of (None, w) \<Rightarrow> f w | (Some e, w) \<Rightarrow> (Some e, w))"

section \<open>Webhook handlers (src/routes/stripeWebhook.js)\<close>

definition no_metadata :: metadata where
  "no_metadata = \<lparr>md_orderId = None, md_userId = None, md_walletAmount = None\<rparr>"

text \<open>The wallet deduction block of \<open>handlePaymentSuccess\<close> (hybrid payment).\<close>

definition walletDeduction ::
  "clock \<Rightarrow> metadata \<Rightarrow> docid \<Rightarrow> user \<Rightarrow> world \<Rightarrow> db_error option \<times> world"
where
  "walletDeduction clk md uid usr w =
     (let walletAmountNum = (case md_walletAmount md of None \<Rightarrow> Num 0 | Some v \<Rightarrow> v) in
      case walletAmountNum of
        NaN \<Rightarrow> (None, w)
      | Num n \<Rightarrow>
          if n > 0 then
            (let currentBalance = orZero (walletBalance usr);
                 newBalance = currentBalance - n
             in if newBalance \<ge> 0 then update_user uid (DeductWallet newBalance (clk 0)) w
                else (None, w))
          else (None, w))"

text \<open>
  \<open>handlePaymentSuccess\<close>. Both document references are made before anything is read; an
  error thrown by \<open>doc\<close>, like a rejected write, is rethrown by the handler's \<open>catch\<close>.
\<close>

definition handlePaymentSuccess ::
  "clock \<Rightarrow> payment_intent \<Rightarrow> world \<Rightarrow> db_error option \<times> world"
where
  "handlePaymentSuccess clk pi w =
     (let md = (case pi_metadata pi of None \<Rightarrow> no_metadata | Some m \<Rightarrow> m) in
      if \<not> truthy (md_orderId md) \<or> \<not> truthy (md_userId md) then (None, w)
      else
        (case (md_orderId md, md_userId md) of
           (Some orderId, Some userId) \<Rightarrow>
             (case doc w (orders w) orderId of
                Inl e \<Rightarrow> (Some e, w)
              | Inr oid \<Rightarrow>
                  (case doc w (users w) userId of
                     Inl e \<Rightarrow> (Some e, w)
                   | Inr uid \<Rightarrow>
                       (case map_of (orders w) oid of
                          None \<Rightarrow> (None, w)
                        | Some ord \<Rightarrow>
                            (case map_of (users w) uid of
                               None \<Rightarrow> (None, w)
                             | Some usr \<Rightarrow>
                                 if paymentStatus ord = Some ''paid'' then (None, w)
                                 else
                                   andThen (walletDeduction clk md uid usr w)
                                     (\<lambda>w1. andThen
                                        (update_order oid
                                           (Finalize (pi_id pi) (orNull (latest_charge pi))
                                              (clk 1)) w1)
                                        (\<lambda>w2. update_user uid
                                                (UnionOrderHistory orderId (clk 2)) w2))))))
         | _ \<Rightarrow> (None, w)))"

text \<open>
  \<open>handlePaymentFailure\<close>: an error thrown by \<open>doc\<close> and a rejected write are caught
  and logged, so the handler always returns.
\<close>

definition handlePaymentFailure :: "clock \<Rightarrow> payment_intent \<Rightarrow> world \<Rightarrow> world" where
  "handlePaymentFailure clk pi w =
     (let md = (case pi_metadata pi of None \<Rightarrow> no_metadata | Some m \<Rightarrow> m) in
      if truthy (md_orderId md) \<and> truthy (md_userId md) then
        (case md_orderId md of
           Some orderId \<Rightarrow>
             (case doc w (orders w) orderId of
                Inl e \<Rightarrow> w
              | Inr oid \<Rightarrow>
                  snd (update_order oid
                         (MarkFailed
                            (if truthy (last_payment_error_message pi)
                             then (case last_payment_error_message pi of
                                     Some m \<Rightarrow> m | None \<Rightarrow> ''Payment failed'')
                             else ''Payment failed'')
                            (clk 0)) w))
         | None \<Rightarrow> w)
      else w)"

text \<open>
  \<open>handleSetupIntentSuccess\<close>: every failure inside is caught and logged. The user
  collection is held in the store's document order, the order in which a query returns
  its matches, so \<open>limit(1)\<close> is the first match. A payment method without card details
  makes the construction of \<open>cardData\<close> throw, which is caught as well.
\<close>

definition handleSetupIntentSuccess :: "stripe \<Rightarrow> clock \<Rightarrow> setup_intent \<Rightarrow> world \<Rightarrow> world" where
  "handleSetupIntentSuccess st clk si w =
     (if \<not> truthy (si_customer si) \<or> \<not> truthy (si_payment_method si) then w
      else
        (case (si_customer si, si_payment_method si) of
           (Some customerId, Some paymentMethodId) \<Rightarrow>
             (let w1 = emit (StripeRetrieve paymentMethodId) w in
              case paymentMethods_retrieve st paymentMethodId of
                Inl err \<Rightarrow> w1
              | Inr paymentMethod \<Rightarrow>
                  (case find (\<lambda>(uid, u). stripeCustomerId u = Some customerId) (users w1) of
                     None \<Rightarrow> w1
                   | Some (uid, u) \<Rightarrow>
                       (case pm_card paymentMethod of
                          None \<Rightarrow> w1
                        | Some c \<Rightarrow>
                            snd (update_user uid
                                   (UnionSavedCards
                                      \<lparr>card_id = paymentMethodId, brand = cd_brand c,
                                       last4 = cd_last4 c, expMonth = cd_exp_month c,
                                       expYear = cd_exp_year c, createdAt = IsoString (clk 0)\<rparr>
                                      (ServerTimestamp (clk 1))) w1))))
         | _ \<Rightarrow> w))"

section \<open>Responses\<close>

datatype json = JNull | JBool bool | JNum int | JStr string

text \<open>
  \<open>Json status fields\<close> is \<open>res.status(status).json({...})\<close> with the object's fields in
  order, \<open>Send status text\<close> is \<open>res.status(status).send(text)\<close>, and \<open>Unhandled e\<close> is a
  handler whose promise was rejected before any response was written.
\<close>

datatype response =
    Json nat "(string \<times> json) list"
  | Send nat string
  | Unhandled db_error

definition strOrNull :: "string option \<Rightarrow> json" where
  "strOrNull x = (case x of None \<Rightarrow> JNull | Some s \<Rightarrow> JStr s)"

text \<open>A field whose value is undefined is left out of the serialised object.\<close>

definition optField :: "string \<Rightarrow> string option \<Rightarrow> (string \<times> json) list" where
  "optField name x = (case x of None \<Rightarrow> [] | Some s \<Rightarrow> [(name, JStr s)])"

definition received :: response where
  "received = Json 200 [(''received'', JBool True)]"

section \<open>The webhook endpoint\<close>

record webhook_request =
  wr_body :: string
  wr_signature :: "string option"

definition stripe_webhook ::
  "stripe \<Rightarrow> clock \<Rightarrow> webhook_request \<Rightarrow> world \<Rightarrow> response \<times> world"
where
  "stripe_webhook st clk req w =
     (case constructEvent st (wr_body req) (wr_signature req) (webhook_secret st) of
        Inl msg \<Rightarrow> (Send 400 (''Webhook Error: '' @ msg), w)
      | Inr ev \<Rightarrow>
          (case ev of
             PaymentIntentSucceeded paymentIntent \<Rightarrow>
               (case handlePaymentSuccess clk paymentIntent w of
                  (Some e, w') \<Rightarrow> (Unhandled e, w')
                | (None, w') \<Rightarrow> (received, w'))
           | PaymentIntentFailed paymentIntent \<Rightarrow>
               (received, handlePaymentFailure clk paymentIntent w)
           | SetupIntentSucceeded setupIntent \<Rightarrow>
               (received, handleSetupIntentSuccess st clk setupIntent w)
           | OtherEvent t \<Rightarrow> (received, w)))"

section \<open>Payment routes (src/routes/payments.js)\<close>

text \<open>
  Request bodies are taken at the types the routes document: amounts are numbers,
  identities are strings, \<open>saveCard\<close> is a boolean, and any of them may be missing. The
  routes themselves do not check these types: an amount sent as a JSON string passes the
  amount check and is concatenated, not added, by \<open>currentBalance + amount\<close>; such bodies
  are outside these definitions. The user document is looked up under the identity as it
  is sent, so the routes are modelled for identities that are keys of the store, or that
  the store accepts as a path and holds no document for.
\<close>

text \<open>
  \<open>getOrCreateCustomer\<close>: the stored customer identity when there is one, else a new
  customer is requested and its identity merged into the user document. A processor
  error is rethrown (\<open>Inl\<close>).
\<close>

definition getOrCreateCustomer ::
  "stripe \<Rightarrow> docid \<Rightarrow> string option \<Rightarrow> world \<Rightarrow> (stripe_error + string) \<times> world"
where
  "getOrCreateCustomer st uid mail w =
     (case (case map_of (users w) uid of
              None \<Rightarrow> None
            | Some u \<Rightarrow> if truthy (stripeCustomerId u) then stripeCustomerId u else None) of
        Some cid \<Rightarrow> (Inr cid, w)
      | None \<Rightarrow>
          (let address = (if truthy mail then (case mail of Some m \<Rightarrow> m | None \<Rightarrow> [])
                          else ''user_'' @ uid @ ''@example.com'');
               w1 = emit (StripeCustomersCreate address uid) w
           in case customers_create st address uid of
                Inl err \<Rightarrow> (Inl err, w1)
              | Inr cid \<Rightarrow> (Inr cid, set_user_merge uid (SetCustomerId cid) w1)))"

text \<open>The body of a 500 response built from a caught processor error.\<close>

definition errorResponse :: "string \<Rightarrow> stripe_error \<Rightarrow> response" where
  "errorResponse dflt err =
     Json 500 ([(''error'', JStr (if err_message err = [] then dflt else err_message err))]
               @ optField ''details'' (err_type err) @ optField ''code'' (err_code err))"

text \<open>The message of a rejected store write, as the store words it.\<close>

definition db_message :: "db_error \<Rightarrow> string" where
  "db_message e =
     (case e of
        NotFound d \<Rightarrow> ''No document to update: '' @ d
      | InvalidPath p \<Rightarrow> ''Path must point to a document: '' @ p)"

record cpi_body =
  cpi_amount :: "int option"
  cpi_orderId :: "string option"
  cpi_userId :: "string option"
  cpi_paymentMethodId :: "string option"
  cpi_walletAmount :: "int option"
  cpi_currency :: "string option"

text \<open>
  \<open>POST /create-payment-intent\<close>. A failing attach of the payment method is caught and
  only logged, so the attach changes nothing but the trace.
\<close>

definition createPaymentIntent :: "stripe \<Rightarrow> cpi_body \<Rightarrow> world \<Rightarrow> response \<times> world" where
  "createPaymentIntent st body w =
     (case cpi_amount body of
        None \<Rightarrow> (Json 400 [(''error'', JStr ''Invalid amount'')], w)
      | Some amount \<Rightarrow>
          if amount = 0 \<or> amount \<le> 0 then (Json 400 [(''error'', JStr ''Invalid amount'')], w)
          else if \<not> truthy (cpi_orderId body) \<or> \<not> truthy (cpi_userId body)
          then (Json 400 [(''error'', JStr ''Missing required fields'')], w)
          else
            (case (cpi_orderId body, cpi_userId body) of
               (Some orderId, Some userId) \<Rightarrow>
                 (case map_of (users w) userId of
                    None \<Rightarrow> (Json 404 [(''error'', JStr ''User not found'')], w)
                  | Some userData \<Rightarrow>
                      (case getOrCreateCustomer st userId (email userData) w of
                         (Inl err, w1) \<Rightarrow>
                           (errorResponse ''Failed to create payment intent'' err, w1)
                       | (Inr customerId, w1) \<Rightarrow>
                           (let walletAmount =
                                  (case cpi_walletAmount body of None \<Rightarrow> 0 | Some x \<Rightarrow> x);
                                stripeAmount = amount - walletAmount
                            in if stripeAmount \<le> 0 then
                                 (Json 200 [(''clientSecret'', JNull),
                                            (''paymentIntentId'', JNull),
                                            (''walletOnly'', JBool True)], w1)
                               else
                                 (let params0 =
                                        \<lparr>pp_amount = stripeAmount,
                                         pp_currency =
                                           (case cpi_currency body of None \<Rightarrow> ''gbp'' | Some c \<Rightarrow> c),
                                         pp_customer = customerId,
                                         pp_metadata =
                                           [(''orderId'', Str orderId), (''userId'', Str userId),
                                            (''walletAmount'', NumString walletAmount)],
                                         pp_apm_enabled = True,
                                         pp_apm_allow_redirects = ''never'',
                                         pp_payment_method = None,
                                         pp_confirm = None,
                                         pp_off_session = None\<rparr>;
                                      params =
                                        (if truthy (cpi_paymentMethodId body)
                                         then params0\<lparr>pp_payment_method := cpi_paymentMethodId body\<rparr>
                                         else params0);
                                      w2 =
                                        (case cpi_paymentMethodId body of
                                           Some pm \<Rightarrow>
                                             if pm \<noteq> [] then emit (StripeAttach pm customerId) w1
                                             else w1
                                         | None \<Rightarrow> w1);
                                      w3 = emit (StripePaymentIntentsCreate params) w2
                                  in case paymentIntents_create st params of
                                       Inl err \<Rightarrow>
                                         (errorResponse ''Failed to create payment intent'' err, w3)
                                     | Inr paymentIntent \<Rightarrow>
                                         (Json 200
                                            [(''clientSecret'', strOrNull (client_secret paymentIntent)),
                                             (''paymentIntentId'', JStr (pi_id paymentIntent)),
                                             (''walletOnly'', JBool False),
                                             (''status'', JStr (pi_status paymentIntent)),
                                             (''requiresConfirmation'',
                                                JBool (pi_status paymentIntent = ''requires_confirmation''
                                                       \<or> pi_status paymentIntent = ''requires_payment_method''))],
                                          w3)))))
             | _ \<Rightarrow> (Json 400 [(''error'', JStr ''Missing required fields'')], w)))"

record rc_request =
  rc_paymentMethodId :: "string option"
  rc_userId :: "string option"

text \<open>
  \<open>DELETE /card/:paymentMethodId\<close>. The default is written as \<open>null\<close> when it is the
  removed card, and as its old value otherwise; an old value that is undefined is
  ignored by the store.
\<close>

definition removeCard :: "stripe \<Rightarrow> clock \<Rightarrow> rc_request \<Rightarrow> world \<Rightarrow> response \<times> world" where
  "removeCard st clk req w =
     (if \<not> truthy (rc_paymentMethodId req) \<or> \<not> truthy (rc_userId req)
      then (Json 400 [(''error'', JStr ''Missing required data'')], w)
      else
        (case (rc_paymentMethodId req, rc_userId req) of
           (Some paymentMethodId, Some userId) \<Rightarrow>
             (let w1 = emit (StripeDetach paymentMethodId) w in
              case paymentMethods_detach st paymentMethodId of
                Inl err \<Rightarrow>
                  (Json 500 [(''error'', JStr (if err_message err = [] then ''Failed to remove card''
                                               else err_message err))], w1)
              | Inr _ \<Rightarrow>
                  (let ok = Json 200 [(''success'', JBool True),
                                      (''message'', JStr ''Card removed successfully'')]
                   in case map_of (users w1) userId of
                        None \<Rightarrow> (ok, w1)
                      | Some userData \<Rightarrow>
                          (let cards = (case savedCards userData of None \<Rightarrow> [] | Some cs \<Rightarrow> cs);
                               updatedCards = filter (\<lambda>c. card_id c \<noteq> paymentMethodId) cards
                           in case update_user userId
                                     (ReplaceCards updatedCards
                                        (if defaultPaymentMethod userData = Some (Val paymentMethodId)
                                         then Some Null
                                         else defaultPaymentMethod userData)
                                        (clk 0)) w1 of
                                (Some e, w2) \<Rightarrow> (Json 500 [(''error'', JStr (db_message e))], w2)
                              | (None, w2) \<Rightarrow> (ok, w2))))
         | _ \<Rightarrow> (Json 400 [(''error'', JStr ''Missing required data'')], w)))"

record amw_body =
  amw_amount :: "int option"
  amw_userId :: "string option"
  amw_paymentMethodId :: "string option"
  amw_saveCard :: "bool option"
  amw_currency :: "string option"

text \<open>
  The card-saving block at the end of a succeeded top-up; every failure inside it is
  caught and logged.
\<close>

definition saveNewCard :: "stripe \<Rightarrow> clock \<Rightarrow> docid \<Rightarrow> string \<Rightarrow> world \<Rightarrow> world" where
  "saveNewCard st clk userId pm w =
     (let w1 = emit (StripeRetrieve pm) w in
      case paymentMethods_retrieve st pm of
        Inl err \<Rightarrow> w1
      | Inr method \<Rightarrow>
          (case pm_card method of
             None \<Rightarrow> w1
           | Some c \<Rightarrow>
               snd (update_user userId
                      (UnionSavedCards
                         \<lparr>card_id = pm_id method, brand = cd_brand c, last4 = cd_last4 c,
                          expMonth = cd_exp_month c, expYear = cd_exp_year c,
                          createdAt = IsoString (clk 2)\<rparr>
                         (IsoString (clk 3))) w1)))"

text \<open>The parameters of the top-up's payment intent.\<close>

definition topUpParams :: "amw_body \<Rightarrow> int \<Rightarrow> docid \<Rightarrow> string \<Rightarrow> pi_params" where
  "topUpParams body amount userId customerId =
     (let saveFlag = (case amw_saveCard body of None \<Rightarrow> False | Some b \<Rightarrow> b);
          params0 =
            \<lparr>pp_amount = amount,
             pp_currency = (case amw_currency body of None \<Rightarrow> ''gbp'' | Some c \<Rightarrow> c),
             pp_customer = customerId,
             pp_metadata =
               [(''userId'', Str userId), (''type'', Str ''wallet_top_up''),
                (''saveCard'', BoolString saveFlag)],
             pp_apm_enabled = True,
             pp_apm_allow_redirects = ''never'',
             pp_payment_method = None,
             pp_confirm = Some True,
             pp_off_session = Some True\<rparr>
      in if truthy (amw_paymentMethodId body)
         then params0\<lparr>pp_payment_method := amw_paymentMethodId body\<rparr>
         else params0\<lparr>pp_confirm := None, pp_off_session := None, pp_apm_enabled := True\<rparr>)"

text \<open>The transaction record of a deposit.\<close>

definition depositRecord ::
  "clock \<Rightarrow> amw_body \<Rightarrow> payment_intent \<Rightarrow> int \<Rightarrow> int \<Rightarrow> wallet_tx"
where
  "depositRecord clk body paymentIntent amount currentBalance =
     \<lparr>tx_type = ''deposit'',
      tx_amount = amount,
      previousBalance = currentBalance,
      newBalance = currentBalance + amount,
      timestamp = IsoString (clk 1),
      tx_status = ''completed'',
      description = ''Wallet top-up via card'',
      tx_stripePaymentIntentId = pi_id paymentIntent,
      tx_stripeChargeId = orNull (latest_charge paymentIntent),
      tx_paymentMethod =
        (if truthy (amw_paymentMethodId body) then ''saved_card'' else ''new_card''),
      tx_saveCard = (case amw_saveCard body of None \<Rightarrow> False | Some b \<Rightarrow> b)\<rparr>"

text \<open>\<open>POST /add-money-to-wallet\<close>.\<close>

definition addMoneyToWallet ::
  "stripe \<Rightarrow> clock \<Rightarrow> amw_body \<Rightarrow> world \<Rightarrow> response \<times> world"
where
  "addMoneyToWallet st clk body w =
     (case amw_amount body of
        None \<Rightarrow> (Json 400 [(''error'', JStr ''Invalid amount'')], w)
      | Some amount \<Rightarrow>
          if amount = 0 \<or> amount \<le> 0 then (Json 400 [(''error'', JStr ''Invalid amount'')], w)
          else if \<not> truthy (amw_userId body)
          then (Json 400 [(''error'', JStr ''Missing user ID'')], w)
          else
            (case amw_userId body of
               None \<Rightarrow> (Json 400 [(''error'', JStr ''Missing user ID'')], w)
             | Some userId \<Rightarrow>
                 (case map_of (users w) userId of
                    None \<Rightarrow> (Json 404 [(''error'', JStr ''User not found'')], w)
                  | Some userData \<Rightarrow>
                      (case getOrCreateCustomer st userId (email userData) w of
                         (Inl err, w1) \<Rightarrow>
                           (errorResponse ''Failed to add money to wallet'' err, w1)
                       | (Inr customerId, w1) \<Rightarrow>
                           (let params = topUpParams body amount userId customerId;
                                w2 =
                                  (case amw_paymentMethodId body of
                                     Some pm \<Rightarrow>
                                       if pm \<noteq> [] then emit (StripeAttach pm customerId) w1
                                       else w1
                                   | None \<Rightarrow> w1);
                                w3 = emit (StripePaymentIntentsCreate params) w2
                            in case paymentIntents_create st params of
                                 Inl err \<Rightarrow>
                                   (errorResponse ''Failed to add money to wallet'' err, w3)
                               | Inr paymentIntent \<Rightarrow>
                                   if pi_status paymentIntent = ''requires_action''
                                      \<or> pi_status paymentIntent = ''requires_payment_method''
                                   then
                                     (Json 200
                                        [(''requiresConfirmation'', JBool True),
                                         (''clientSecret'', strOrNull (client_secret paymentIntent)),
                                         (''paymentIntentId'', JStr (pi_id paymentIntent)),
                                         (''status'', JStr (pi_status paymentIntent))], w3)
                                   else
                                     (let done =
                                            Json 200
                                              [(''success'', JBool True),
                                               (''paymentIntentId'', JStr (pi_id paymentIntent)),
                                               (''status'', JStr (pi_status paymentIntent)),
                                               (''requiresConfirmation'', JBool False),
                                               (''amountAdded'', JNum amount),
                                               (''newBalance'',
                                                  JNum (orZero (walletBalance userData) + amount))]
                                      in if pi_status paymentIntent = ''succeeded'' then
                                           (let currentBalance = orZero (walletBalance userData)
                                            in case update_user userId
                                                      (CreditWallet (currentBalance + amount) (clk 0)
                                                         (depositRecord clk body paymentIntent amount
                                                            currentBalance)) w3 of
                                                 (Some e, w4) \<Rightarrow>
                                                   (Json 500 [(''error'', JStr (db_message e))], w4)
                                               | (None, w4) \<Rightarrow>
                                                   (done,
                                                    if (case amw_saveCard body of None \<Rightarrow> False | Some b \<Rightarrow> b)
                                                       \<and> \<not> truthy (amw_paymentMethodId body)
                                                       \<and> truthy (pi_payment_method paymentIntent)
                                                    then (case pi_payment_method paymentIntent of
                                                            Some pm \<Rightarrow> saveNewCard st clk userId pm w4
                                                          | None \<Rightarrow> w4)
                                                    else w4))
                                         else (done, w3)))))))"

section \<open>Counting writes in the trace\<close>

text \<open>How many times the order was written as paid.\<close>

definition paidWrites :: "docid \<Rightarrow> effect list \<Rightarrow> nat" where
  "paidWrites oid tr =
     length (filter (\<lambda>e. case e of OrderUpdate d (Finalize _ _ _) \<Rightarrow> d = oid | _ \<Rightarrow> False) tr)"

text \<open>How many times the order was added to the user's order history.\<close>

definition historyWrites :: "docid \<Rightarrow> docid \<Rightarrow> effect list \<Rightarrow> nat" where
  "historyWrites uid oid tr =
     length (filter (\<lambda>e. case e of UserUpdate d (UnionOrderHistory x _) \<Rightarrow> d = uid \<and> x = oid
                          | _ \<Rightarrow> False) tr)"

text \<open>How many times the user's wallet was debited.\<close>

definition deductWrites :: "docid \<Rightarrow> effect list \<Rightarrow> nat" where
  "deductWrites uid tr =
     length (filter (\<lambda>e. case e of UserUpdate d (DeductWallet _ _) \<Rightarrow> d = uid | _ \<Rightarrow> False) tr)"

text \<open>
  Whether the wallet deduction block debits: the amount is a positive number and the
  balance covers it.
\<close>

definition deductible :: "metadata \<Rightarrow> user \<Rightarrow> bool" where
  "deductible md usr =
     (case md_walletAmount md of
        Some (Num n) \<Rightarrow> n > 0 \<and> orZero (walletBalance usr) - n \<ge> 0
      | _ \<Rightarrow> False)"

section \<open>A concrete scenario\<close>

text \<open>
  Order \<open>o1\<close> of user \<open>u1\<close>, total 1000 of which 400 come from the wallet; the user's
  balance is 1000 in \<open>example_world\<close> and 100 in \<open>poor_world\<close>.
\<close>

definition example_order :: order where
  "example_order =
     \<lparr>paymentStatus = Some ''unpaid'', orderStatus = Some ''pending'', verified = Some False,
      currency = None, stripePaymentIntentId = None, stripeChargeId = None, paidAt = None,
      paymentError = None, order_updatedAt = None\<rparr>"

definition example_user :: user where
  "example_user =
     \<lparr>email = Some ''ada@example.com'', stripeCustomerId = Some ''cus_1'',
      walletBalance = Some 1000, savedCards = None, defaultPaymentMethod = None,
      walletTransactions = None, orderHistory = None, user_updatedAt = None\<rparr>"

text \<open>
  A stand-in for the store's client: a path without a slash names the document of that
  identity; a path with a slash is rejected, as the library rejects \<open>a/b\<close>.
\<close>

definition plain_paths :: "string \<Rightarrow> docid option" where
  "plain_paths p = (if CHR ''/'' \<in> set p then None else Some p)"

definition example_world :: world where
  "example_world =
     \<lparr>orders = [(''o1'', example_order)], users = [(''u1'', example_user)], trace = [],
      pathKey = plain_paths\<rparr>"

definition poor_world :: world where
  "poor_world =
     \<lparr>orders = [(''o1'', example_order)],
      users = [(''u1'', example_user\<lparr>walletBalance := Some 100\<rparr>)], trace = [],
      pathKey = plain_paths\<rparr>"

definition example_metadata :: metadata where
  "example_metadata =
     \<lparr>md_orderId = Some ''o1'', md_userId = Some ''u1'', md_walletAmount = Some (Num 400)\<rparr>"

definition example_intent :: payment_intent where
  "example_intent =
     \<lparr>pi_id = ''pi_1'', pi_status = ''succeeded'', client_secret = Some ''secret'',
      latest_charge = Some ''ch_1'', pi_payment_method = Some ''pm_1'', pi_amount = 600,
      pi_metadata = Some example_metadata, last_payment_error_message = None\<rparr>"

definition first_clock :: clock where
  "first_clock k = 10 + k"

definition second_clock :: clock where
  "second_clock k = 20 + k"

definition third_clock :: clock where
  "third_clock k = 30 + k"

definition paid_order :: order where
  "paid_order =
     example_order\<lparr>paymentStatus := Some ''paid'', orderStatus := Some ''confirmed'',
                    verified := Some True\<rparr>"

definition paid_world :: world where
  "paid_world = \<lparr>orders = [(''o1'', paid_order)], users = [(''u1'', example_user)], trace = [],
      pathKey = plain_paths\<rparr>"

definition failed_intent :: payment_intent where
  "failed_intent =
     example_intent\<lparr>pi_status := ''requires_payment_method'',
                     last_payment_error_message := Some ''Your card was declined.''\<rparr>"

text \<open>An event for an order that the store does not hold.\<close>

definition stray_intent :: payment_intent where
  "stray_intent =
     example_intent\<lparr>pi_metadata :=
        Some \<lparr>md_orderId = Some ''o9'', md_userId = Some ''u1'',
              md_walletAmount = Some (Num 400)\<rparr>\<rparr>"

text \<open>An event whose order identity is not the path of a document.\<close>

definition slash_intent :: payment_intent where
  "slash_intent =
     example_intent\<lparr>pi_metadata :=
        Some \<lparr>md_orderId = Some ''a/b'', md_userId = Some ''u1'',
              md_walletAmount = Some (Num 400)\<rparr>\<rparr>"

text \<open>
  A stand-in for the processor: it accepts a webhook body only with the signature
  \<open>good\<close>, and then delivers the event the body names; every other call succeeds with
  fixed answers.
\<close>

definition example_stripe :: stripe where
  "example_stripe =
     \<lparr>customers_create = (\<lambda>address uid. Inr ''cus_new''),
      paymentMethods_attach = (\<lambda>pm customer. Inr ()),
      paymentMethods_detach = (\<lambda>pm. Inr ()),
      paymentMethods_retrieve =
        (\<lambda>pm. Inr \<lparr>pm_id = pm,
                     pm_card = Some \<lparr>cd_brand = ''visa'', cd_last4 = ''4242'',
                                     cd_exp_month = 12, cd_exp_year = 2030\<rparr>\<rparr>),
      paymentIntents_create =
        (\<lambda>params. Inr (example_intent\<lparr>pi_status := ''requires_payment_method'',
                                      pi_amount := pp_amount params\<rparr>)),
      constructEvent =
        (\<lambda>body signature secret.
           if signature = Some ''good'' \<and> secret = Some ''whsec''
           then Inr (if body = ''stray'' then PaymentIntentSucceeded stray_intent
                     else if body = ''slash'' then PaymentIntentSucceeded slash_intent
                     else PaymentIntentSucceeded example_intent)
           else Inl ''No signatures found matching the expected signature for payload''),
      webhook_secret = Some ''whsec''\<rparr>"

section \<open>Reading responses and documents\<close>

text \<open>The field names of a JSON response body.\<close>

definition responseFields :: "response \<Rightarrow> string list" where
  "responseFields r = (case r of Json code fs \<Rightarrow> map fst fs | _ \<Rightarrow> [])"

text \<open>The saved-card list as the routes read it: \<open>userData.savedCards || []\<close>.\<close>

definition cardList :: "user \<Rightarrow> card list" where
  "cardList u = (case savedCards u of None \<Rightarrow> [] | Some cs \<Rightarrow> cs)"

text \<open>The wallet transactions held by a user document, none when the field is missing.\<close>

definition txList :: "user \<Rightarrow> wallet_tx list" where
  "txList u = (case walletTransactions u of None \<Rightarrow> [] | Some ts \<Rightarrow> ts)"

text \<open>How many payment intents were requested from the processor.\<close>

definition intentRequests :: "effect list \<Rightarrow> nat" where
  "intentRequests tr =
     length (filter (\<lambda>e. case e of StripePaymentIntentsCreate _ \<Rightarrow> True | _ \<Rightarrow> False) tr)"

section \<open>Concrete requests\<close>

definition wallet_only_body :: cpi_body where
  "wallet_only_body =
     \<lparr>cpi_amount = Some 1000, cpi_orderId = Some ''o1'', cpi_userId = Some ''u1'',
      cpi_paymentMethodId = None, cpi_walletAmount = Some 1000, cpi_currency = None\<rparr>"

definition top_up_body :: amw_body where
  "top_up_body =
     \<lparr>amw_amount = Some 500, amw_userId = Some ''u1'', amw_paymentMethodId = Some ''pm_1'',
      amw_saveCard = None, amw_currency = None\<rparr>"

definition succeeding_stripe :: stripe where
  "succeeding_stripe =
     example_stripe\<lparr>paymentIntents_create :=
       (\<lambda>params. Inr (example_intent\<lparr>pi_status := ''succeeded'',
                                     pi_amount := pp_amount params\<rparr>))\<rparr>"


definition visa :: card where
  "visa = \<lparr>card_id = ''pm_1'', brand = ''visa'', last4 = ''4242'', expMonth = 12,
           expYear = 2030, createdAt = IsoString 1\<rparr>"

definition amex :: card where
  "amex = \<lparr>card_id = ''pm_2'', brand = ''amex'', last4 = ''0005'', expMonth = 1,
           expYear = 2031, createdAt = IsoString 2\<rparr>"

definition card_user :: user where
  "card_user =
     example_user\<lparr>savedCards := Some [visa, amex], defaultPaymentMethod := Some (Val ''pm_1'')\<rparr>"

definition card_world :: world where
  "card_world =
     \<lparr>orders = [], users = [(''u1'', card_user)], trace = [], pathKey = plain_paths\<rparr>"

section \<open>A success, a failure, and the success again\<close>

text \<open>
  The success event of the scenario is handled, then a failure event for the same order,
  then the same success event once more.
\<close>

definition after_success :: world where
  "after_success = snd (handlePaymentSuccess first_clock example_intent example_world)"

definition after_failure :: world where
  "after_failure = handlePaymentFailure second_clock failed_intent after_success"

definition after_redelivery :: world where
  "after_redelivery = snd (handlePaymentSuccess third_clock example_intent after_failure)"

section \<open>Facts about the webhook handlers\<close>

lemma doc_existing: "map_of coll p = Some d \<Longrightarrow> doc w coll p = Inr p"
  by (auto simp: doc_def dest!: map_of_SomeD intro: image_eqI[where x = "(p, d)"])

lemma walletDeduction_fst:
  "map_of (users w) uid = Some usr \<Longrightarrow> fst (walletDeduction clk md uid usr w) = None"
  by (auto simp: walletDeduction_def update_user_def Let_def split: option.splits jsnum.splits)

lemma walletDeduction_orders:
  "orders (snd (walletDeduction clk md uid usr w)) = orders w"
  by (auto simp: walletDeduction_def update_user_def emit_def Let_def
           split: option.splits jsnum.splits)

lemma walletDeduction_pathKey:
  "pathKey (snd (walletDeduction clk md uid usr w)) = pathKey w"
  by (auto simp: walletDeduction_def update_user_def emit_def Let_def
           split: option.splits jsnum.splits)

lemma walletDeduction_users:
  "map_of (users w) uid = Some usr \<Longrightarrow>
   map_of (users (snd (walletDeduction clk md uid usr w))) =
     (map_of (users w))
       (uid \<mapsto> (if deductible md usr
                then usr\<lparr>walletBalance :=
                           Some (orZero (walletBalance usr)
                                 - (case md_walletAmount md of Some (Num n) \<Rightarrow> n | _ \<Rightarrow> 0)),
                         user_updatedAt := Some (ServerTimestamp (clk 0))\<rparr>
                else usr))"
  by (auto simp: walletDeduction_def deductible_def update_user_def emit_def Let_def
                 AList.update_conv' map_upd_triv
           split: option.splits jsnum.splits)

lemma walletDeduction_user:
  "map_of (users w) uid = Some usr \<Longrightarrow>
   map_of (users (snd (walletDeduction clk md uid usr w))) uid =
     Some (if deductible md usr
           then usr\<lparr>walletBalance :=
                      Some (orZero (walletBalance usr)
                            - (case md_walletAmount md of Some (Num n) \<Rightarrow> n | _ \<Rightarrow> 0)),
                    user_updatedAt := Some (ServerTimestamp (clk 0))\<rparr>
           else usr)"
  by (simp add: walletDeduction_users)

lemma walletDeduction_trace:
  "map_of (users w) uid = Some usr \<Longrightarrow>
   trace (snd (walletDeduction clk md uid usr w)) =
     trace w @ (if deductible md usr
                then [UserUpdate uid
                        (DeductWallet
                           (orZero (walletBalance usr)
                            - (case md_walletAmount md of Some (Num n) \<Rightarrow> n | _ \<Rightarrow> 0))
                           (clk 0))]
                else [])"
  by (auto simp: walletDeduction_def deductible_def update_user_def emit_def Let_def
           split: option.splits jsnum.splits)

lemma handlePaymentSuccess_paid:
  assumes "pi_metadata pi = Some md" "md_orderId md = Some oid" "md_userId md = Some uid"
    "map_of (orders w) oid = Some ord" "map_of (users w) uid = Some usr"
    "paymentStatus ord = Some ''paid''"
  shows "handlePaymentSuccess clk pi w = (None, w)"
  using assms doc_existing[OF assms(4), of w] doc_existing[OF assms(5), of w]
  by (simp add: handlePaymentSuccess_def)

lemma handlePaymentSuccess_unpaid:
  assumes "pi_metadata pi = Some md" "md_orderId md = Some oid" "oid \<noteq> []"
    "md_userId md = Some uid" "uid \<noteq> []"
    "map_of (orders w) oid = Some ord" "map_of (users w) uid = Some usr"
    "paymentStatus ord \<noteq> Some ''paid''"
  shows "\<exists>w1 ua. handlePaymentSuccess clk pi w = (None, w1)
     \<and> map_of (orders w1) oid =
         Some (apply_order_update (Finalize (pi_id pi) (orNull (latest_charge pi)) (clk 1)) ord)
     \<and> trace w1 = trace (snd (walletDeduction clk md uid usr w)) @
          [OrderUpdate oid (Finalize (pi_id pi) (orNull (latest_charge pi)) (clk 1)),
           UserUpdate uid (UnionOrderHistory oid (clk 2))]
     \<and> map_of (users (snd (walletDeduction clk md uid usr w))) uid = Some ua
     \<and> map_of (users w1) uid = Some (apply_user_update (UnionOrderHistory oid (clk 2)) ua)
     \<and> map_of (orders w1) =
         (map_of (orders w))
           (oid \<mapsto> apply_order_update
                     (Finalize (pi_id pi) (orNull (latest_charge pi)) (clk 1)) ord)
     \<and> map_of (users w1) =
         (map_of (users (snd (walletDeduction clk md uid usr w))))
           (uid \<mapsto> apply_user_update (UnionOrderHistory oid (clk 2)) ua)
     \<and> pathKey w1 = pathKey w"
proof -
  obtain wa where wa: "walletDeduction clk md uid usr w = (None, wa)"
    using walletDeduction_fst[OF assms(7), of clk md]
    by (cases "walletDeduction clk md uid usr w") auto
  have o: "orders wa = orders w"
    using walletDeduction_orders[of clk md uid usr w] wa by simp
  have p: "pathKey wa = pathKey w"
    using walletDeduction_pathKey[of clk md uid usr w] wa by simp
  have "map_of (users wa) uid \<noteq> None"
    using walletDeduction_user[OF assms(7), of clk md] wa by simp
  then obtain ua where ua: "map_of (users wa) uid = Some ua" by auto
  show ?thesis
    using assms wa o p ua doc_existing[OF assms(6), of w] doc_existing[OF assms(7), of w]
    by (simp add: handlePaymentSuccess_def truthy_def andThen_def update_order_def
                  update_user_def emit_def AList.update_conv')
qed

lemma paidWrites_append: "paidWrites oid (xs @ ys) = paidWrites oid xs + paidWrites oid ys"
  by (simp add: paidWrites_def)

lemma historyWrites_append:
  "historyWrites uid oid (xs @ ys) = historyWrites uid oid xs + historyWrites uid oid ys"
  by (simp add: historyWrites_def)

lemma deductWrites_append: "deductWrites uid (xs @ ys) = deductWrites uid xs + deductWrites uid ys"
  by (simp add: deductWrites_def)

section \<open>Idempotence of the success handler\<close>

text \<open>
  Claim C1 as stated fails: the guard reads only the order's current payment status. In
  the scenario the success event is applied, a failure event sets the order to \<open>failed\<close>,
  and the same success event, handled a second time, is applied again: the order is
  written as paid twice and the wallet is debited twice, from 1000 to 600 to 200.
\<close>

theorem handlePaymentSuccess_idempotent_counterexample:
  "map_option walletBalance (map_of (users after_success) ''u1'') = Some (Some 600)
   \<and> map_option paymentStatus (map_of (orders after_failure) ''o1'') = Some (Some ''failed'')
   \<and> map_option walletBalance (map_of (users after_redelivery) ''u1'') = Some (Some 200)
   \<and> map_option paymentStatus (map_of (orders after_redelivery) ''o1'') = Some (Some ''paid'')
   \<and> paidWrites ''o1'' (trace after_redelivery) = 2
   \<and> deductWrites ''u1'' (trace after_redelivery) = 2
   \<and> after_redelivery \<noteq> after_failure"
proof -
  have s: "after_success =
      \<lparr>orders = [(''o1'', apply_order_update (Finalize ''pi_1'' (Val ''ch_1'') 11) example_order)],
       users = [(''u1'', apply_user_update (UnionOrderHistory ''o1'' 12)
                          (apply_user_update (DeductWallet 600 10) example_user))],
       trace = [UserUpdate ''u1'' (DeductWallet 600 10),
                OrderUpdate ''o1'' (Finalize ''pi_1'' (Val ''ch_1'') 11),
                UserUpdate ''u1'' (UnionOrderHistory ''o1'' 12)],
       pathKey = plain_paths\<rparr>"
    by (simp add: after_success_def handlePaymentSuccess_def walletDeduction_def andThen_def
                  update_order_def update_user_def emit_def doc_def truthy_def orNull_def
                  orZero_def example_intent_def example_metadata_def example_world_def
                  example_user_def example_order_def first_clock_def)
  have f: "after_failure =
      after_success\<lparr>orders :=
                      [(''o1'', apply_order_update (MarkFailed ''Your card was declined.'' 20)
                                 (apply_order_update (Finalize ''pi_1'' (Val ''ch_1'') 11)
                                    example_order))],
                    trace := trace after_success @
                      [OrderUpdate ''o1'' (MarkFailed ''Your card was declined.'' 20)]\<rparr>"
    unfolding after_failure_def s
    by (simp add: handlePaymentFailure_def update_order_def emit_def doc_def truthy_def
                  failed_intent_def example_intent_def example_metadata_def second_clock_def)
  have r: "after_redelivery =
      after_failure\<lparr>orders :=
                      [(''o1'', apply_order_update (Finalize ''pi_1'' (Val ''ch_1'') 31)
                                 (apply_order_update (MarkFailed ''Your card was declined.'' 20)
                                    (apply_order_update (Finalize ''pi_1'' (Val ''ch_1'') 11)
                                       example_order)))],
                    users :=
                      [(''u1'', apply_user_update (UnionOrderHistory ''o1'' 32)
                                 (apply_user_update (DeductWallet 200 30)
                                    (apply_user_update (UnionOrderHistory ''o1'' 12)
                                       (apply_user_update (DeductWallet 600 10) example_user))))],
                    trace := trace after_failure @
                      [UserUpdate ''u1'' (DeductWallet 200 30),
                       OrderUpdate ''o1'' (Finalize ''pi_1'' (Val ''ch_1'') 31),
                       UserUpdate ''u1'' (UnionOrderHistory ''o1'' 32)]\<rparr>"
    unfolding after_redelivery_def f s
    by (simp add: handlePaymentSuccess_def walletDeduction_def andThen_def
                  update_order_def update_user_def emit_def doc_def truthy_def orNull_def
                  orZero_def example_intent_def example_metadata_def example_user_def
                  example_order_def third_clock_def)
  have ne: "trace after_redelivery \<noteq> trace after_failure"
    unfolding r by simp
  have "after_redelivery \<noteq> after_failure"
    using ne by auto
  moreover have "map_option walletBalance (map_of (users after_success) ''u1'') = Some (Some 600)"
    unfolding s by simp
  moreover have "map_option paymentStatus (map_of (orders after_failure) ''o1'')
                   = Some (Some ''failed'')"
    unfolding f by simp
  moreover have "map_option walletBalance (map_of (users after_redelivery) ''u1'')
                   = Some (Some 200)"
    unfolding r by simp
  moreover have "map_option paymentStatus (map_of (orders after_redelivery) ''o1'')
                   = Some (Some ''paid'')"
    unfolding r by simp
  moreover have "paidWrites ''o1'' (trace after_redelivery) = 2"
    unfolding r f s by (simp add: paidWrites_def)
  moreover have "deductWrites ''u1'' (trace after_redelivery) = 2"
    unfolding r f s by (simp add: deductWrites_def)
  ultimately show ?thesis by simp
qed

text \<open>
  Claim C1, amended. For a \<open>payment_intent.succeeded\<close> event with valid metadata whose
  order and user exist, the handler returns normally with a world \<open>w1\<close> in which the order
  is paid, and handling the same event again on \<open>w1\<close> (at any later clock) returns \<open>w1\<close>
  itself: nothing changes and no write is issued. If the order was paid before, \<open>w1\<close> is
  the world before. If it was not, the first delivery has applied the event once: the
  order document is the old one with payment status \<open>paid\<close>, order status \<open>confirmed\<close>,
  verified, currency, the intent and charge identities and the times set; the user
  document is the old one with the balance reduced by the wallet amount exactly when that
  amount is a positive number the balance covers, the order identity united into the order
  history, and the update time set; no other document changes; and the writes issued are
  the debit (when it applies), the paid write and the history write, once each. The guard
  is the order's current status: in any world where the order is still paid and the user
  exists, handling the event changes nothing.
\<close>

theorem handlePaymentSuccess_idempotent:
  assumes "pi_metadata pi = Some md"
    and "md_orderId md = Some oid" and "oid \<noteq> []"
    and "md_userId md = Some uid" and "uid \<noteq> []"
    and "map_of (orders w) oid = Some ord"
    and "map_of (users w) uid = Some usr"
  shows "\<exists>w1 ord1 usr1.
           handlePaymentSuccess clk1 pi w = (None, w1)
         \<and> handlePaymentSuccess clk2 pi w1 = (None, w1)
         \<and> map_of (orders w1) oid = Some ord1 \<and> paymentStatus ord1 = Some ''paid''
         \<and> map_of (users w1) uid = Some usr1
         \<and> (paymentStatus ord = Some ''paid'' \<longrightarrow> w1 = w)
         \<and> (paymentStatus ord \<noteq> Some ''paid'' \<longrightarrow>
               ord1 = ord\<lparr>paymentStatus := Some ''paid'',
                          orderStatus := Some ''confirmed'',
                          verified := Some True,
                          currency := Some ''GBP'',
                          stripePaymentIntentId := Some (pi_id pi),
                          stripeChargeId := Some (orNull (latest_charge pi)),
                          paidAt := Some (ServerTimestamp (clk1 1)),
                          order_updatedAt := Some (ServerTimestamp (clk1 1))\<rparr>
             \<and> usr1 = usr\<lparr>walletBalance :=
                            (if deductible md usr
                             then Some (orZero (walletBalance usr)
                                        - (case md_walletAmount md of
                                             Some (Num n) \<Rightarrow> n | _ \<Rightarrow> 0))
                             else walletBalance usr),
                          orderHistory := arrayUnion (orderHistory usr) oid,
                          user_updatedAt := Some (ServerTimestamp (clk1 2))\<rparr>
             \<and> map_of (orders w1) = (map_of (orders w))(oid \<mapsto> ord1)
             \<and> map_of (users w1) = (map_of (users w))(uid \<mapsto> usr1)
             \<and> trace w1 =
                 trace w
                 @ (if deductible md usr
                    then [UserUpdate uid
                            (DeductWallet
                               (orZero (walletBalance usr)
                                - (case md_walletAmount md of Some (Num n) \<Rightarrow> n | _ \<Rightarrow> 0))
                               (clk1 0))]
                    else [])
                 @ [OrderUpdate oid (Finalize (pi_id pi) (orNull (latest_charge pi)) (clk1 1)),
                    UserUpdate uid (UnionOrderHistory oid (clk1 2))])
         \<and> paidWrites oid (trace w1) =
             paidWrites oid (trace w) + (if paymentStatus ord = Some ''paid'' then 0 else 1)
         \<and> historyWrites uid oid (trace w1) =
             historyWrites uid oid (trace w) + (if paymentStatus ord = Some ''paid'' then 0 else 1)
         \<and> deductWrites uid (trace w1) =
             deductWrites uid (trace w)
             + (if paymentStatus ord \<noteq> Some ''paid'' \<and> deductible md usr then 1 else 0)
         \<and> (\<forall>w' clk' ord' usr'.
               map_of (orders w') oid = Some ord' \<and> paymentStatus ord' = Some ''paid''
               \<and> map_of (users w') uid = Some usr'
               \<longrightarrow> handlePaymentSuccess clk' pi w' = (None, w'))"
proof -
  have guard: "\<forall>w' clk' ord' usr'.
               map_of (orders w') oid = Some ord' \<and> paymentStatus ord' = Some ''paid''
               \<and> map_of (users w') uid = Some usr'
               \<longrightarrow> handlePaymentSuccess clk' pi w' = (None, w')"
    using handlePaymentSuccess_paid[OF assms(1,2,4)] by blast
  show ?thesis
  proof (cases "paymentStatus ord = Some ''paid''")
    case True
    have "handlePaymentSuccess clk pi w = (None, w)" for clk
      using handlePaymentSuccess_paid[OF assms(1,2,4,6,7) True] .
    then show ?thesis using True assms(6,7) guard by auto
  next
    case False
    define dw where "dw = snd (walletDeduction clk1 md uid usr w)"
    define ua where "ua = (if deductible md usr
           then usr\<lparr>walletBalance :=
                      Some (orZero (walletBalance usr)
                            - (case md_walletAmount md of Some (Num n) \<Rightarrow> n | _ \<Rightarrow> 0)),
                    user_updatedAt := Some (ServerTimestamp (clk1 0))\<rparr>
           else usr)"
    define ord1 where
      "ord1 = apply_order_update (Finalize (pi_id pi) (orNull (latest_charge pi)) (clk1 1)) ord"
    define usr1 where "usr1 = apply_user_update (UnionOrderHistory oid (clk1 2)) ua"
    have dwu: "map_of (users dw) = (map_of (users w))(uid \<mapsto> ua)"
      unfolding dw_def ua_def using walletDeduction_users[OF assms(7), of clk1 md] .
    then have dwua: "map_of (users dw) uid = Some ua" by simp
    obtain w1 where run: "handlePaymentSuccess clk1 pi w = (None, w1)"
      and o1: "map_of (orders w1) oid = Some ord1"
      and tr: "trace w1 = trace dw @
          [OrderUpdate oid (Finalize (pi_id pi) (orNull (latest_charge pi)) (clk1 1)),
           UserUpdate uid (UnionOrderHistory oid (clk1 2))]"
      and u1: "map_of (users w1) uid = Some usr1"
      and om: "map_of (orders w1) = (map_of (orders w))(oid \<mapsto> ord1)"
      and um: "map_of (users w1) = (map_of (users dw))(uid \<mapsto> usr1)"
      using handlePaymentSuccess_unpaid[OF assms False, of clk1] dwua
      unfolding dw_def[symmetric] ord1_def[symmetric] usr1_def by auto
    have paid1: "paymentStatus ord1 = Some ''paid''"
      by (simp add: ord1_def)
    have again: "handlePaymentSuccess clk2 pi w1 = (None, w1)"
      using handlePaymentSuccess_paid[OF assms(1,2,4) o1 u1 paid1] .
    have um': "map_of (users w1) = (map_of (users w))(uid \<mapsto> usr1)"
      using um dwu by simp
    have tr': "trace w1 = trace w
         @ (if deductible md usr
            then [UserUpdate uid
                    (DeductWallet
                       (orZero (walletBalance usr)
                        - (case md_walletAmount md of Some (Num n) \<Rightarrow> n | _ \<Rightarrow> 0))
                       (clk1 0))]
            else [])
         @ [OrderUpdate oid (Finalize (pi_id pi) (orNull (latest_charge pi)) (clk1 1)),
            UserUpdate uid (UnionOrderHistory oid (clk1 2))]"
      using tr walletDeduction_trace[OF assms(7), of clk1 md] by (simp add: dw_def)
    have p: "paidWrites oid (trace w1) = paidWrites oid (trace w) + 1"
      unfolding tr' paidWrites_append by (simp add: paidWrites_def)
    have h: "historyWrites uid oid (trace w1) = historyWrites uid oid (trace w) + 1"
      unfolding tr' historyWrites_append by (simp add: historyWrites_def)
    have d: "deductWrites uid (trace w1) =
               deductWrites uid (trace w) + (if deductible md usr then 1 else 0)"
      unfolding tr' deductWrites_append by (simp add: deductWrites_def)
    have oeq: "ord1 = ord\<lparr>paymentStatus := Some ''paid'',
                          orderStatus := Some ''confirmed'',
                          verified := Some True,
                          currency := Some ''GBP'',
                          stripePaymentIntentId := Some (pi_id pi),
                          stripeChargeId := Some (orNull (latest_charge pi)),
                          paidAt := Some (ServerTimestamp (clk1 1)),
                          order_updatedAt := Some (ServerTimestamp (clk1 1))\<rparr>"
      by (simp add: ord1_def)
    have ueq: "usr1 = usr\<lparr>walletBalance :=
                            (if deductible md usr
                             then Some (orZero (walletBalance usr)
                                        - (case md_walletAmount md of
                                             Some (Num n) \<Rightarrow> n | _ \<Rightarrow> 0))
                             else walletBalance usr),
                          orderHistory := arrayUnion (orderHistory usr) oid,
                          user_updatedAt := Some (ServerTimestamp (clk1 2))\<rparr>"
      by (simp add: usr1_def ua_def)
    show ?thesis
      using run again o1 paid1 u1 False oeq ueq om um' tr' p h d guard by simp
  qed
qed

theorem handlePaymentSuccess_idempotent_witness:
  "\<exists>w1 ord1 usr1.
     handlePaymentSuccess first_clock example_intent example_world = (None, w1)
   \<and> handlePaymentSuccess second_clock example_intent w1 = (None, w1)
   \<and> map_of (orders w1) ''o1'' = Some ord1 \<and> paymentStatus ord1 = Some ''paid''
   \<and> orderStatus ord1 = Some ''confirmed'' \<and> verified ord1 = Some True
   \<and> map_of (users w1) ''u1'' = Some usr1
   \<and> walletBalance usr1 = Some 600
   \<and> orderHistory usr1 = Some [''o1'']
   \<and> paidWrites ''o1'' (trace w1) = 1
   \<and> historyWrites ''u1'' ''o1'' (trace w1) = 1
   \<and> deductWrites ''u1'' (trace w1) = 1"
  using handlePaymentSuccess_idempotent
          [of example_intent example_metadata "''o1''" "''u1''" example_world
              example_order example_user first_clock second_clock]
  by (auto simp: example_intent_def example_metadata_def example_world_def example_order_def
                 example_user_def deductible_def orZero_def paidWrites_def historyWrites_def
                 deductWrites_def arrayUnion_def)

section \<open>Insufficient wallet balance\<close>

text \<open>
  Claim C2. When the success handler reaches the wallet deduction (valid metadata, order
  and user exist, order not yet paid) with a wallet amount \<open>n > 0\<close> that exceeds the
  current balance, the user's wallet balance is left as it was, no wallet debit is written,
  and the order is finalized: payment status \<open>paid\<close>, order status \<open>confirmed\<close>, verified.
\<close>

theorem handlePaymentSuccess_insufficient_wallet:
  assumes "pi_metadata pi = Some md"
    and "md_orderId md = Some oid" and "oid \<noteq> []"
    and "md_userId md = Some uid" and "uid \<noteq> []"
    and "map_of (orders w) oid = Some ord"
    and "map_of (users w) uid = Some usr"
    and "paymentStatus ord \<noteq> Some ''paid''"
    and "md_walletAmount md = Some (Num n)" and "n > 0"
    and "n > orZero (walletBalance usr)"
  shows "\<exists>w1 ord1 usr1.
           handlePaymentSuccess clk pi w = (None, w1)
         \<and> map_of (orders w1) oid = Some ord1
         \<and> paymentStatus ord1 = Some ''paid''
         \<and> orderStatus ord1 = Some ''confirmed''
         \<and> verified ord1 = Some True
         \<and> map_of (users w1) uid = Some usr1
         \<and> walletBalance usr1 = walletBalance usr
         \<and> deductWrites uid (trace w1) = deductWrites uid (trace w)"
proof -
  have nd: "\<not> deductible md usr"
    using assms(9,11) by (simp add: deductible_def)
  obtain w1 ua where run: "handlePaymentSuccess clk pi w = (None, w1)"
    and ord1: "map_of (orders w1) oid =
         Some (apply_order_update (Finalize (pi_id pi) (orNull (latest_charge pi)) (clk 1)) ord)"
    and tr: "trace w1 = trace (snd (walletDeduction clk md uid usr w)) @
          [OrderUpdate oid (Finalize (pi_id pi) (orNull (latest_charge pi)) (clk 1)),
           UserUpdate uid (UnionOrderHistory oid (clk 2))]"
    and ua: "map_of (users (snd (walletDeduction clk md uid usr w))) uid = Some ua"
    and usr1: "map_of (users w1) uid = Some (apply_user_update (UnionOrderHistory oid (clk 2)) ua)"
    using handlePaymentSuccess_unpaid[OF assms(1-8), of clk] by blast
  have "ua = usr"
    using ua walletDeduction_user[OF assms(7), of clk md] nd by simp
  then have bal: "walletBalance (apply_user_update (UnionOrderHistory oid (clk 2)) ua)
                    = walletBalance usr"
    by simp
  have "trace w1 = trace w @
          [OrderUpdate oid (Finalize (pi_id pi) (orNull (latest_charge pi)) (clk 1)),
           UserUpdate uid (UnionOrderHistory oid (clk 2))]"
    using tr walletDeduction_trace[OF assms(7), of clk md] nd by simp
  then have d: "deductWrites uid (trace w1) = deductWrites uid (trace w)"
    by (simp add: deductWrites_def)
  show ?thesis using run ord1 usr1 bal d by simp
qed

theorem handlePaymentSuccess_insufficient_wallet_witness:
  "\<exists>w1 ord1 usr1.
     handlePaymentSuccess first_clock example_intent poor_world = (None, w1)
   \<and> map_of (orders w1) ''o1'' = Some ord1
   \<and> paymentStatus ord1 = Some ''paid''
   \<and> orderStatus ord1 = Some ''confirmed''
   \<and> verified ord1 = Some True
   \<and> map_of (users w1) ''u1'' = Some usr1
   \<and> walletBalance usr1 = Some 100
   \<and> deductWrites ''u1'' (trace w1) = 0"
  using handlePaymentSuccess_insufficient_wallet
          [of example_intent example_metadata "''o1''" "''u1''" poor_world
              example_order "example_user\<lparr>walletBalance := Some 100\<rparr>" 400 first_clock]
  by (simp add: example_intent_def example_metadata_def poor_world_def example_order_def
                example_user_def orZero_def deductWrites_def)

section \<open>The failure handler has no guard\<close>

text \<open>
  Claim C7. For an existing order in any payment status, also \<open>paid\<close>, a
  \<open>payment_intent.payment_failed\<close> event whose metadata names the order and a user sets
  the order's payment status to \<open>failed\<close> and stores the failure message (the processor's
  message, or \<open>Payment failed\<close> when there is none); nothing else of the order changes but
  its update time, and the users are untouched.
\<close>

theorem handlePaymentFailure_overwrites:
  assumes "pi_metadata pi = Some md"
    and "md_orderId md = Some oid" and "oid \<noteq> []"
    and "truthy (md_userId md)"
    and "map_of (orders w) oid = Some ord"
  shows "map_of (orders (handlePaymentFailure clk pi w)) oid =
           Some (ord\<lparr>paymentStatus := Some ''failed'',
                      paymentError :=
                        Some (case last_payment_error_message pi of
                                None \<Rightarrow> ''Payment failed''
                              | Some m \<Rightarrow> if m = [] then ''Payment failed'' else m),
                      order_updatedAt := Some (ServerTimestamp (clk 0))\<rparr>)
         \<and> users (handlePaymentFailure clk pi w) = users w"
  using assms doc_existing[OF assms(5), of w]
  by (auto simp: handlePaymentFailure_def truthy_def update_order_def emit_def
                 AList.update_conv'
           split: option.splits)

theorem handlePaymentFailure_overwrites_witness:
  "paymentStatus paid_order = Some ''paid''
   \<and> map_of (orders (handlePaymentFailure first_clock failed_intent paid_world)) ''o1'' =
       Some (paid_order\<lparr>paymentStatus := Some ''failed'',
                        paymentError := Some ''Your card was declined.'',
                        order_updatedAt := Some (ServerTimestamp 10)\<rparr>)
   \<and> users (handlePaymentFailure first_clock failed_intent paid_world) = users paid_world"
  using handlePaymentFailure_overwrites
          [of failed_intent example_metadata "''o1''" paid_world paid_order first_clock]
  by (simp add: failed_intent_def example_intent_def example_metadata_def paid_world_def
                paid_order_def truthy_def first_clock_def)

section \<open>The webhook endpoint\<close>

text \<open>
  Claim C3. When the verification of the signature fails with message \<open>msg\<close>, the endpoint
  answers with status 400 and the text \<open>Webhook Error: msg\<close>, and the world is as before:
  no order or user changes, and no write or processor request is issued.
\<close>

theorem stripe_webhook_bad_signature:
  assumes "constructEvent st (wr_body req) (wr_signature req) (webhook_secret st) = Inl msg"
  shows "stripe_webhook st clk req w = (Send 400 (''Webhook Error: '' @ msg), w)"
  using assms by (simp add: stripe_webhook_def)

theorem stripe_webhook_bad_signature_witness:
  "stripe_webhook example_stripe first_clock
     \<lparr>wr_body = ''order o1'', wr_signature = Some ''forged''\<rparr> example_world =
   (Send 400
      (''Webhook Error: '' @ ''No signatures found matching the expected signature for payload''),
    example_world)"
  using stripe_webhook_bad_signature
          [of example_stripe "\<lparr>wr_body = ''order o1'', wr_signature = Some ''forged''\<rparr>"
              "''No signatures found matching the expected signature for payload''"
              first_clock example_world]
  by (simp add: example_stripe_def)

lemma handlePaymentSuccess_no_metadata:
  "pi_metadata pi = None \<Longrightarrow> handlePaymentSuccess clk pi w = (None, w)"
  by (simp add: handlePaymentSuccess_def no_metadata_def truthy_def)

lemma handlePaymentSuccess_falsy_ids:
  "pi_metadata pi = Some md \<Longrightarrow> \<not> truthy (md_orderId md) \<or> \<not> truthy (md_userId md) \<Longrightarrow>
   handlePaymentSuccess clk pi w = (None, w)"
  by (simp add: handlePaymentSuccess_def)

lemma handlePaymentSuccess_missing_order:
  "pi_metadata pi = Some md \<Longrightarrow> md_orderId md = Some orderId \<Longrightarrow> md_userId md = Some userId \<Longrightarrow>
   doc w (orders w) orderId = Inr oid \<Longrightarrow> doc w (users w) userId = Inr uid \<Longrightarrow>
   map_of (orders w) oid = None \<Longrightarrow> handlePaymentSuccess clk pi w = (None, w)"
  by (simp add: handlePaymentSuccess_def)

lemma handlePaymentSuccess_missing_user:
  "pi_metadata pi = Some md \<Longrightarrow> md_orderId md = Some orderId \<Longrightarrow> md_userId md = Some userId \<Longrightarrow>
   doc w (orders w) orderId = Inr oid \<Longrightarrow> doc w (users w) userId = Inr uid \<Longrightarrow>
   map_of (users w) uid = None \<Longrightarrow> handlePaymentSuccess clk pi w = (None, w)"
  by (simp add: handlePaymentSuccess_def split: option.split)

lemma handlePaymentSuccess_bad_path:
  "pi_metadata pi = Some md \<Longrightarrow> md_orderId md = Some orderId \<Longrightarrow> orderId \<noteq> [] \<Longrightarrow>
   md_userId md = Some userId \<Longrightarrow> userId \<noteq> [] \<Longrightarrow>
   doc w (orders w) orderId = Inl e \<Longrightarrow> handlePaymentSuccess clk pi w = (Some e, w)"
  by (simp add: handlePaymentSuccess_def truthy_def)

text \<open>
  Claim C4 as stated fails: an order identity that is not the path of a document, such as
  \<open>a/b\<close>, names no order document, yet \<open>doc\<close> throws on it inside the handler's \<open>try\<close>, the
  \<open>catch\<close> rethrows, and the endpoint never answers \<open>{received: true}\<close>.
\<close>

theorem stripe_webhook_success_noop_counterexample:
  "map_of (orders example_world) ''a/b'' = None
   \<and> stripe_webhook example_stripe first_clock
        \<lparr>wr_body = ''slash'', wr_signature = Some ''good''\<rparr> example_world
      = (Unhandled (InvalidPath ''a/b''), example_world)
   \<and> fst (stripe_webhook example_stripe first_clock
             \<lparr>wr_body = ''slash'', wr_signature = Some ''good''\<rparr> example_world)
      \<noteq> Json 200 [(''received'', JBool True)]"
  by (simp add: stripe_webhook_def example_stripe_def slash_intent_def example_world_def
                handlePaymentSuccess_def truthy_def doc_def plain_paths_def)

text \<open>
  Claim C4, amended. For a verified \<open>payment_intent.succeeded\<close> event whose metadata is
  missing or lacks a (non-empty) order or user identity, or whose order and user identity
  are both paths of documents of which the order document or the user document does not
  exist, the endpoint answers \<open>{received: true}\<close> with status 200 and the world is as
  before: order, wallet and order history are unchanged and no write is issued.
\<close>

theorem stripe_webhook_success_noop:
  assumes "constructEvent st (wr_body req) (wr_signature req) (webhook_secret st)
             = Inr (PaymentIntentSucceeded pi)"
    and "pi_metadata pi = None
         \<or> (\<exists>md. pi_metadata pi = Some md
                \<and> (\<not> truthy (md_orderId md) \<or> \<not> truthy (md_userId md)
                    \<or> (\<exists>orderId userId oid uid.
                          md_orderId md = Some orderId \<and> md_userId md = Some userId
                          \<and> doc w (orders w) orderId = Inr oid
                          \<and> doc w (users w) userId = Inr uid
                          \<and> (map_of (orders w) oid = None \<or> map_of (users w) uid = None))))"
  shows "stripe_webhook st clk req w = (Json 200 [(''received'', JBool True)], w)"
proof -
  have "handlePaymentSuccess clk pi w = (None, w)"
    using assms(2)
    by (elim disjE exE conjE)
       (simp_all add: handlePaymentSuccess_no_metadata handlePaymentSuccess_falsy_ids
                      handlePaymentSuccess_missing_order handlePaymentSuccess_missing_user)
  then show ?thesis
    using assms(1) by (simp add: stripe_webhook_def received_def)
qed

theorem stripe_webhook_success_noop_witness:
  "stripe_webhook example_stripe first_clock
     \<lparr>wr_body = ''stray'', wr_signature = Some ''good''\<rparr> example_world =
   (Json 200 [(''received'', JBool True)], example_world)"
  using stripe_webhook_success_noop
          [of example_stripe "\<lparr>wr_body = ''stray'', wr_signature = Some ''good''\<rparr>"
              stray_intent example_world first_clock]
  by (simp add: example_stripe_def stray_intent_def example_world_def doc_def plain_paths_def)

section \<open>Validation in the intent issuer\<close>

text \<open>
  Claim C9. When the amount of a create-payment-intent request is missing, zero or
  negative, the answer is 400 \<open>Invalid amount\<close> and the world is as before: no processor
  request and no store write was issued. When the order or user identity is missing (or
  empty), the answer is a 400 as well (\<open>Invalid amount\<close> if the amount is invalid too, else
  \<open>Missing required fields\<close>), again with the world as before.
\<close>

theorem createPaymentIntent_validation:
  "(cpi_amount body = None \<or> (\<exists>a. cpi_amount body = Some a \<and> a \<le> 0)
      \<longrightarrow> createPaymentIntent st body w = (Json 400 [(''error'', JStr ''Invalid amount'')], w))
   \<and> (\<not> truthy (cpi_orderId body) \<or> \<not> truthy (cpi_userId body)
      \<longrightarrow> createPaymentIntent st body w =
            (Json 400 [(''error'',
                        JStr (if cpi_amount body = None \<or> (\<exists>a. cpi_amount body = Some a \<and> a \<le> 0)
                              then ''Invalid amount'' else ''Missing required fields''))], w))"
proof (cases "cpi_amount body")
  case None
  then show ?thesis by (simp add: createPaymentIntent_def)
next
  case (Some a)
  then show ?thesis by (simp add: createPaymentIntent_def)
qed

theorem createPaymentIntent_validation_witness:
  "createPaymentIntent example_stripe (wallet_only_body\<lparr>cpi_amount := Some 0\<rparr>) example_world =
     (Json 400 [(''error'', JStr ''Invalid amount'')], example_world)
   \<and> createPaymentIntent example_stripe (wallet_only_body\<lparr>cpi_amount := None\<rparr>) example_world =
     (Json 400 [(''error'', JStr ''Invalid amount'')], example_world)
   \<and> createPaymentIntent example_stripe (wallet_only_body\<lparr>cpi_orderId := None\<rparr>) example_world =
     (Json 400 [(''error'', JStr ''Missing required fields'')], example_world)"
  using createPaymentIntent_validation
          [of "wallet_only_body\<lparr>cpi_amount := Some 0\<rparr>" example_stripe example_world]
        createPaymentIntent_validation
          [of "wallet_only_body\<lparr>cpi_amount := None\<rparr>" example_stripe example_world]
        createPaymentIntent_validation
          [of "wallet_only_body\<lparr>cpi_orderId := None\<rparr>" example_stripe example_world]
  by (simp add: wallet_only_body_def truthy_def)

section \<open>Wallet-only payments\<close>

lemma getOrCreateCustomer_intentRequests:
  "intentRequests (trace (snd (getOrCreateCustomer st uid mail w))) = intentRequests (trace w)"
  by (simp add: getOrCreateCustomer_def set_user_merge_def emit_def intentRequests_def Let_def
           split: option.split sum.split)

text \<open>
  Claim C6 as stated fails: the wallet-only response of a valid request with
  \<open>walletAmount = amount\<close> has the three fields \<open>clientSecret\<close>, \<open>paymentIntentId\<close> and
  \<open>walletOnly\<close>, and neither \<open>status\<close> nor \<open>requiresConfirmation\<close>.
\<close>

theorem createPaymentIntent_walletOnly_counterexample:
  "cpi_walletAmount wallet_only_body = cpi_amount wallet_only_body
   \<and> fst (createPaymentIntent example_stripe wallet_only_body example_world) =
       Json 200 [(''clientSecret'', JNull), (''paymentIntentId'', JNull),
                 (''walletOnly'', JBool True)]
   \<and> ''status'' \<notin> set (responseFields
         (fst (createPaymentIntent example_stripe wallet_only_body example_world)))
   \<and> ''requiresConfirmation'' \<notin> set (responseFields
         (fst (createPaymentIntent example_stripe wallet_only_body example_world)))"
  by (simp add: createPaymentIntent_def wallet_only_body_def example_world_def example_user_def
                getOrCreateCustomer_def truthy_def responseFields_def)

text \<open>
  Claim C6, amended. For a create-payment-intent request that passes validation
  (\<open>amount > 0\<close>, order and user identity present, user exists), whose customer is
  resolved, and whose \<open>walletAmount\<close> equals \<open>amount\<close>: the answer is status 200 with
  exactly \<open>{clientSecret: null, paymentIntentId: null, walletOnly: true}\<close>, the world is
  the one left by the customer resolution, and no payment intent was requested from the
  processor.
\<close>

theorem createPaymentIntent_walletOnly:
  assumes "cpi_amount body = Some amount" and "amount > 0"
    and "cpi_walletAmount body = Some amount"
    and "cpi_orderId body = Some oid" and "oid \<noteq> []"
    and "cpi_userId body = Some uid" and "uid \<noteq> []"
    and "map_of (users w) uid = Some usr"
    and "getOrCreateCustomer st uid (email usr) w = (Inr cid, w1)"
  shows "createPaymentIntent st body w =
           (Json 200 [(''clientSecret'', JNull), (''paymentIntentId'', JNull),
                      (''walletOnly'', JBool True)], w1)
         \<and> intentRequests (trace w1) = intentRequests (trace w)"
proof -
  have "intentRequests (trace w1) = intentRequests (trace w)"
    using getOrCreateCustomer_intentRequests[of st uid "email usr" w] assms(9) by simp
  moreover have "createPaymentIntent st body w =
           (Json 200 [(''clientSecret'', JNull), (''paymentIntentId'', JNull),
                      (''walletOnly'', JBool True)], w1)"
    using assms by (simp add: createPaymentIntent_def truthy_def)
  ultimately show ?thesis by simp
qed

theorem createPaymentIntent_walletOnly_witness:
  "createPaymentIntent example_stripe wallet_only_body example_world =
     (Json 200 [(''clientSecret'', JNull), (''paymentIntentId'', JNull),
                (''walletOnly'', JBool True)], example_world)
   \<and> intentRequests (trace example_world) = 0"
  using createPaymentIntent_walletOnly
          [of wallet_only_body 1000 "''o1''" "''u1''" example_world example_user
              example_stripe "''cus_1''" example_world]
  by (simp add: wallet_only_body_def example_world_def example_user_def getOrCreateCustomer_def
                truthy_def intentRequests_def)

section \<open>Wallet top-up\<close>

lemma getOrCreateCustomer_user:
  assumes "map_of (users w) uid = Some usr"
  shows "\<exists>u1. map_of (users (snd (getOrCreateCustomer st uid mail w))) uid = Some u1
           \<and> walletBalance u1 = walletBalance usr
           \<and> walletTransactions u1 = walletTransactions usr"
  using assms
  by (simp add: getOrCreateCustomer_def set_user_merge_def emit_def Let_def AList.update_conv'
           split: option.split sum.split)

lemma saveNewCard_user:
  assumes "map_of (users w) uid = Some usr"
  shows "\<exists>u1. map_of (users (saveNewCard st clk uid pm w)) uid = Some u1
           \<and> walletBalance u1 = walletBalance usr
           \<and> walletTransactions u1 = walletTransactions usr"
  using assms
  by (simp add: saveNewCard_def update_user_def emit_def Let_def AList.update_conv'
           split: option.split sum.split)

lemma addMoneyToWallet_created:
  assumes "amw_amount body = Some amount" and "amount > 0"
    and "amw_userId body = Some uid" and "uid \<noteq> []"
    and "map_of (users w) uid = Some usr"
    and "getOrCreateCustomer st uid (email usr) w = (Inr cid, w1)"
    and "paymentIntents_create st (topUpParams body amount uid cid) = Inr pi"
    and "pi_status pi \<noteq> ''requires_action''" and "pi_status pi \<noteq> ''requires_payment_method''"
    and "w3 = emit (StripePaymentIntentsCreate (topUpParams body amount uid cid))
                (case amw_paymentMethodId body of
                   Some pm \<Rightarrow> if pm \<noteq> [] then emit (StripeAttach pm cid) w1 else w1
                 | None \<Rightarrow> w1)"
  shows "addMoneyToWallet st clk body w =
       (let done = Json 200
                     [(''success'', JBool True),
                      (''paymentIntentId'', JStr (pi_id pi)),
                      (''status'', JStr (pi_status pi)),
                      (''requiresConfirmation'', JBool False),
                      (''amountAdded'', JNum amount),
                      (''newBalance'', JNum (orZero (walletBalance usr) + amount))]
        in if pi_status pi = ''succeeded'' then
             (case update_user uid
                     (CreditWallet (orZero (walletBalance usr) + amount) (clk 0)
                        (depositRecord clk body pi amount (orZero (walletBalance usr)))) w3 of
                (Some e, w4) \<Rightarrow> (Json 500 [(''error'', JStr (db_message e))], w4)
              | (None, w4) \<Rightarrow>
                  (done,
                   if (case amw_saveCard body of None \<Rightarrow> False | Some b \<Rightarrow> b)
                      \<and> \<not> truthy (amw_paymentMethodId body)
                      \<and> truthy (pi_payment_method pi)
                   then (case pi_payment_method pi of
                           Some pm \<Rightarrow> saveNewCard st clk uid pm w4
                         | None \<Rightarrow> w4)
                   else w4))
           else (done, w3))"
  using assms
  by (simp add: addMoneyToWallet_def truthy_def Let_def)


lemma addMoneyToWallet_needs_confirmation:
  assumes "amw_amount body = Some amount" and "amount > 0"
    and "amw_userId body = Some uid" and "uid \<noteq> []"
    and "map_of (users w) uid = Some usr"
    and "getOrCreateCustomer st uid (email usr) w = (Inr cid, w1)"
    and "paymentIntents_create st (topUpParams body amount uid cid) = Inr pi"
    and "pi_status pi = ''requires_action'' \<or> pi_status pi = ''requires_payment_method''"
  shows "users (snd (addMoneyToWallet st clk body w)) = users w1"
  using assms
  by (auto simp: addMoneyToWallet_def truthy_def Let_def emit_def split: option.split)

lemma arrayUnion_member: "\<exists>xs. arrayUnion cur x = Some xs \<and> x \<in> set xs"
  by (simp add: arrayUnion_def split: option.split)

lemma arrayUnion_fresh:
  "x \<notin> set (case cur of None \<Rightarrow> [] | Some xs \<Rightarrow> xs) \<Longrightarrow>
   arrayUnion cur x = Some ((case cur of None \<Rightarrow> [] | Some xs \<Rightarrow> xs) @ [x])"
  by (simp add: arrayUnion_def split: option.split)

text \<open>
  A top-up whose amount is a number. For an add-money request that passes validation,
  whose customer is resolved and for which the processor creates the intent \<open>pi\<close>: if the
  status of \<open>pi\<close> is \<open>succeeded\<close>, the user's balance becomes the previous balance plus the
  amount, and the deposit record \<open>tx\<close> is united into the wallet transactions (it is in the
  list afterwards, and is appended at the end when the list did not hold it), with
  \<open>tx_amount = amount\<close>, \<open>previousBalance\<close> the previous balance and
  \<open>newBalance = previousBalance + amount\<close>, the balance written. If the status is anything
  else, balance and transactions are unchanged. An amount sent as a JSON string is not
  covered: the route concatenates it to the balance.
\<close>

theorem addMoneyToWallet_credit:
  assumes "amw_amount body = Some amount" and "amount > 0"
    and "amw_userId body = Some uid" and "uid \<noteq> []"
    and "map_of (users w) uid = Some usr"
    and "getOrCreateCustomer st uid (email usr) w = (Inr cid, w1)"
    and "paymentIntents_create st (topUpParams body amount uid cid) = Inr pi"
  shows "\<exists>usr' tx.
           map_of (users (snd (addMoneyToWallet st clk body w))) uid = Some usr'
         \<and> tx = depositRecord clk body pi amount (orZero (walletBalance usr))
         \<and> (pi_status pi = ''succeeded'' \<longrightarrow>
               walletBalance usr' = Some (orZero (walletBalance usr) + amount)
             \<and> walletTransactions usr' = arrayUnion (walletTransactions usr) tx
             \<and> tx \<in> set (txList usr')
             \<and> (tx \<notin> set (txList usr) \<longrightarrow> txList usr' = txList usr @ [tx])
             \<and> tx_amount tx = amount
             \<and> previousBalance tx = orZero (walletBalance usr)
             \<and> newBalance tx = previousBalance tx + tx_amount tx
             \<and> walletBalance usr' = Some (newBalance tx))
         \<and> (pi_status pi \<noteq> ''succeeded'' \<longrightarrow>
               walletBalance usr' = walletBalance usr
             \<and> walletTransactions usr' = walletTransactions usr)"
proof -
  define tx where "tx = depositRecord clk body pi amount (orZero (walletBalance usr))"
  define upd where "upd = CreditWallet (orZero (walletBalance usr) + amount) (clk 0) tx"
  define w3 where "w3 = emit (StripePaymentIntentsCreate (topUpParams body amount uid cid))
                (case amw_paymentMethodId body of
                   Some pm \<Rightarrow> if pm \<noteq> [] then emit (StripeAttach pm cid) w1 else w1
                 | None \<Rightarrow> w1)"
  have uw3: "users w3 = users w1"
    by (simp add: w3_def emit_def split: option.split)
  obtain u1 where u1: "map_of (users w1) uid = Some u1"
    and b1: "walletBalance u1 = walletBalance usr"
    and t1: "walletTransactions u1 = walletTransactions usr"
    using getOrCreateCustomer_user[OF assms(5), of st "email usr"] assms(6) by auto
  show ?thesis
  proof (cases "pi_status pi = ''requires_action'' \<or> pi_status pi = ''requires_payment_method''")
    case True
    have "users (snd (addMoneyToWallet st clk body w)) = users w1"
      using addMoneyToWallet_needs_confirmation[OF assms True] .
    moreover have "pi_status pi \<noteq> ''succeeded''" using True by auto
    ultimately show ?thesis using u1 b1 t1 by simp
  next
    case False
    then have ns: "pi_status pi \<noteq> ''requires_action''" "pi_status pi \<noteq> ''requires_payment_method''"
      by auto
    note run = addMoneyToWallet_created[OF assms ns w3_def, of clk]
    show ?thesis
    proof (cases "pi_status pi = ''succeeded''")
      case ok: True
      define u4 where "u4 = apply_user_update upd u1"
      define w4 where "w4 = emit (UserUpdate uid upd) (w3\<lparr>users := AList.update uid u4 (users w3)\<rparr>)"
      have step: "update_user uid upd w3 = (None, w4)"
        using u1 uw3 by (simp add: update_user_def w4_def u4_def)
      have m4: "map_of (users w4) uid = Some u4"
        by (simp add: w4_def emit_def AList.update_conv')
      have b4: "walletBalance u4 = Some (orZero (walletBalance usr) + amount)"
        and t4: "walletTransactions u4 = arrayUnion (walletTransactions usr) tx"
        by (simp_all add: u4_def upd_def t1)
      define wf where "wf =
         (if (case amw_saveCard body of None \<Rightarrow> False | Some b \<Rightarrow> b)
             \<and> \<not> truthy (amw_paymentMethodId body) \<and> truthy (pi_payment_method pi)
          then (case pi_payment_method pi of
                  Some pm \<Rightarrow> saveNewCard st clk uid pm w4 | None \<Rightarrow> w4)
          else w4)"
      have "snd (addMoneyToWallet st clk body w) = wf"
        using run ok step by (simp add: wf_def upd_def tx_def Let_def)
      moreover have "\<exists>uf. map_of (users wf) uid = Some uf
           \<and> walletBalance uf = walletBalance u4
           \<and> walletTransactions uf = walletTransactions u4"
        using m4 saveNewCard_user[OF m4, of st clk]
        by (auto simp: wf_def split: option.split)
      ultimately obtain uf where uf: "map_of (users (snd (addMoneyToWallet st clk body w))) uid = Some uf"
        and bf: "walletBalance uf = Some (orZero (walletBalance usr) + amount)"
        and tf: "walletTransactions uf = arrayUnion (walletTransactions usr) tx"
        using b4 t4 by auto
      have mem: "tx \<in> set (txList uf)"
        using arrayUnion_member[of "walletTransactions usr" tx] tf by (auto simp: txList_def)
      have fresh: "tx \<notin> set (txList usr) \<longrightarrow> txList uf = txList usr @ [tx]"
        using arrayUnion_fresh[of tx "walletTransactions usr"] tf by (auto simp: txList_def)
      have flds: "tx_amount tx = amount" "previousBalance tx = orZero (walletBalance usr)"
        "newBalance tx = previousBalance tx + tx_amount tx"
        by (simp_all add: tx_def depositRecord_def)
      show ?thesis
        using uf bf tf mem fresh flds ok unfolding tx_def[symmetric] by simp
    next
      case no: False
      have "snd (addMoneyToWallet st clk body w) = w3"
        using run no by (simp add: Let_def)
      then show ?thesis using no u1 b1 t1 uw3 by simp
    qed
  qed
qed


theorem addMoneyToWallet_credit_witness:
  "\<exists>usr' tx.
     map_of (users (snd (addMoneyToWallet succeeding_stripe first_clock top_up_body example_world)))
       ''u1'' = Some usr'
   \<and> walletBalance usr' = Some 1500
   \<and> walletTransactions usr' = Some [tx]
   \<and> tx_amount tx = 500 \<and> previousBalance tx = 1000 \<and> newBalance tx = 1500"
  using addMoneyToWallet_credit
          [of top_up_body 500 "''u1''" example_world example_user succeeding_stripe
              "''cus_1''" example_world
              "example_intent\<lparr>pi_status := ''succeeded'', pi_amount := 500\<rparr>" first_clock]
  by (auto simp: top_up_body_def example_world_def example_user_def succeeding_stripe_def
                 example_stripe_def example_intent_def getOrCreateCustomer_def truthy_def
                 topUpParams_def orZero_def arrayUnion_def txList_def)



section \<open>Removing a card\<close>

text \<open>
  Claim C10. For a remove-card request on an existing user whose detach at the processor
  succeeds: if the removed identity is the stored default, the default becomes \<open>null\<close> and
  the saved cards are the old ones without that identity, every other card kept; if the
  identity is neither among the saved cards nor the default, the saved-card list and the
  default are unchanged.
\<close>

theorem removeCard_frame:
  assumes "rc_paymentMethodId req = Some pm" and "pm \<noteq> []"
    and "rc_userId req = Some uid" and "uid \<noteq> []"
    and "paymentMethods_detach st pm = Inr ()"
    and "map_of (users w) uid = Some usr"
  shows "\<exists>usr'.
           map_of (users (snd (removeCard st clk req w))) uid = Some usr'
         \<and> (defaultPaymentMethod usr = Some (Val pm) \<longrightarrow>
               defaultPaymentMethod usr' = Some Null
             \<and> cardList usr' = filter (\<lambda>c. card_id c \<noteq> pm) (cardList usr)
             \<and> (\<forall>c \<in> set (cardList usr). card_id c \<noteq> pm \<longrightarrow> c \<in> set (cardList usr')))
         \<and> (pm \<notin> card_id ` set (cardList usr) \<and> defaultPaymentMethod usr \<noteq> Some (Val pm) \<longrightarrow>
               cardList usr' = cardList usr
             \<and> defaultPaymentMethod usr' = defaultPaymentMethod usr)"
proof -
  have keep: "pm \<notin> card_id ` set cs \<Longrightarrow> filter (\<lambda>c. card_id c \<noteq> pm) cs = cs" for cs
    by (induction cs) auto
  show ?thesis
    using assms keep[of "cardList usr"]
    by (auto simp: removeCard_def truthy_def update_user_def emit_def Let_def cardList_def
                   AList.update_conv'
             split: option.splits)
qed

theorem removeCard_frame_witness:
  "(\<exists>usr'. map_of (users (snd (removeCard example_stripe first_clock
                \<lparr>rc_paymentMethodId = Some ''pm_1'', rc_userId = Some ''u1''\<rparr> card_world)))
              ''u1'' = Some usr'
          \<and> defaultPaymentMethod usr' = Some Null \<and> cardList usr' = [amex])
   \<and> (\<exists>usr'. map_of (users (snd (removeCard example_stripe first_clock
                \<lparr>rc_paymentMethodId = Some ''pm_9'', rc_userId = Some ''u1''\<rparr> card_world)))
              ''u1'' = Some usr'
          \<and> defaultPaymentMethod usr' = Some (Val ''pm_1'') \<and> cardList usr' = [visa, amex])"
proof
  show "\<exists>usr'. map_of (users (snd (removeCard example_stripe first_clock
                \<lparr>rc_paymentMethodId = Some ''pm_1'', rc_userId = Some ''u1''\<rparr> card_world)))
              ''u1'' = Some usr'
          \<and> defaultPaymentMethod usr' = Some Null \<and> cardList usr' = [amex]"
    using removeCard_frame
            [of "\<lparr>rc_paymentMethodId = Some ''pm_1'', rc_userId = Some ''u1''\<rparr>" "''pm_1''"
                "''u1''" example_stripe card_world card_user first_clock]
    by (auto simp: example_stripe_def card_world_def card_user_def cardList_def visa_def
                   amex_def example_user_def)
next
  show "\<exists>usr'. map_of (users (snd (removeCard example_stripe first_clock
                \<lparr>rc_paymentMethodId = Some ''pm_9'', rc_userId = Some ''u1''\<rparr> card_world)))
              ''u1'' = Some usr'
          \<and> defaultPaymentMethod usr' = Some (Val ''pm_1'') \<and> cardList usr' = [visa, amex]"
    using removeCard_frame
            [of "\<lparr>rc_paymentMethodId = Some ''pm_9'', rc_userId = Some ''u1''\<rparr>" "''pm_9''"
                "''u1''" example_stripe card_world card_user first_clock]
    by (auto simp: example_stripe_def card_world_def card_user_def cardList_def visa_def
                   amex_def example_user_def)
qed

end
